theory Spec2Isabelle
  imports Complex_Main "HOL-Library.Multiset"
begin

section \<open>Python values\<close>

text \<open>
  A Python \<open>str\<close> is a sequence of Unicode code points, and \<open>len\<close>, slicing and
  \<open>ljust\<close> count code points. A string is therefore a list of code points;
  \<open>lit\<close> turns an ASCII literal into one, and a character outside ASCII is written
  as its code point.
\<close>

type_synonym pystr = "nat list"

definition lit :: "string \<Rightarrow> pystr" where
  "lit s = map of_char s"

text \<open>
  Numbers keep Python's split into \<open>int\<close> and \<open>float\<close>. A float is modelled by the
  exact rational it stands for: binary rounding is not part of this model.
\<close>

datatype pynum = PyInt int | PyFloat rat

text \<open>
  The value \<open>response.json()\<close> returns. An object is the list of its items in
  insertion order, which is the order \<open>dict.items()\<close> iterates in; the keys of a
  dict are distinct.
\<close>

datatype json =
    JNull
  | JBool bool
  | JNum pynum
  | JStr pystr
  | JArr "json list"
  | JObj "(pystr \<times> json) list"

datatype py_error =
    AttributeError | TypeError | KeyError | ValueError | IndexError | OtherException

text \<open>Sequencing of statements that may raise: the first error ends the block.\<close>

definition and_then :: "py_error + 'a \<Rightarrow> ('a \<Rightarrow> py_error + 'b) \<Rightarrow> py_error + 'b" where
  "and_then m f = (case m of Inl e \<Rightarrow> Inl e | Inr x \<Rightarrow> f x)"

text \<open>\<open>d.get(k, dflt)\<close>: only a dict has the method.\<close>

fun dict_get :: "json \<Rightarrow> pystr \<Rightarrow> json \<Rightarrow> py_error + json" where
  "dict_get (JObj kvs) k dflt = Inr (case map_of kvs k of Some v \<Rightarrow> v | None \<Rightarrow> dflt)"
| "dict_get _ k dflt = Inl AttributeError"

text \<open>\<open>k in d\<close> for a dict \<open>d\<close>.\<close>

fun has_key :: "json \<Rightarrow> pystr \<Rightarrow> bool" where
  "has_key (JObj kvs) k = (map_of kvs k \<noteq> None)"
| "has_key _ k = False"

text \<open>The numeric value of an operand of \<open>+\<close>, \<open>/\<close>, \<open>>\<close>, \<open>>=\<close>: \<open>bool\<close> is a
  subclass of \<open>int\<close>; any other type raises \<open>TypeError\<close> against a number.\<close>

fun value_of :: "pynum \<Rightarrow> rat" where
  "value_of (PyInt i) = of_int i"
| "value_of (PyFloat r) = r"

fun num_of :: "json \<Rightarrow> rat option" where
  "num_of (JNum n) = Some (value_of n)"
| "num_of (JBool b) = Some (if b then 1 else 0)"
| "num_of _ = None"

definition as_num :: "json \<Rightarrow> py_error + rat" where
  "as_num v = (case num_of v of Some r \<Rightarrow> Inr r | None \<Rightarrow> Inl TypeError)"

text \<open>\<open>int(x)\<close> on a number truncates toward zero.\<close>

definition py_int :: "rat \<Rightarrow> int" where
  "py_int r = (if r < 0 then \<lceil>r\<rceil> else \<lfloor>r\<rfloor>)"

text \<open>The decimal text of an \<open>int\<close> in an f-string.\<close>

fun digits :: "nat \<Rightarrow> pystr" where
  "digits n = (if n < 10 then [48 + n] else digits (n div 10) @ [48 + n mod 10])"

definition show_int :: "int \<Rightarrow> pystr" where
  "show_int i = (if i < 0 then 45 # digits (nat (- i)) else digits (nat i))"

text \<open>\<open>x[:150]\<close>: a string or a list is sliced, a number, \<open>None\<close> or a dict raises
  (a dict raises \<open>TypeError\<close> up to Python 3.11 and \<open>KeyError\<close> from 3.12 on; both end
  the call the same way).\<close>

fun slice150 :: "json \<Rightarrow> py_error + json" where
  "slice150 (JStr s) = Inr (JStr (take 150 s))"
| "slice150 (JArr xs) = Inr (JArr (take 150 xs))"
| "slice150 _ = Inl TypeError"

text \<open>\<open>x + s\<close> for a string \<open>s\<close>: only a string can be concatenated with it.\<close>

fun str_add :: "json \<Rightarrow> pystr \<Rightarrow> py_error + pystr" where
  "str_add (JStr s) t = Inr (s @ t)"
| "str_add _ t = Inl TypeError"

section \<open>The translation table\<close>

text \<open>\<open>AUDIT_TRANSLATIONS\<close>: audit identifier to (title, action).\<close>

definition AUDIT_TRANSLATIONS :: "(pystr \<times> (pystr \<times> pystr)) list" where
  "AUDIT_TRANSLATIONS = [
    (lit ''render-blocking-resources'',
      ([0x1f6ab] @ lit '' Render Engelleyen Kaynaklar'' @ [0x131] @ lit '' Azalt'' @ [0x131] @ lit ''n'',
       lit ''CSS ve JavaScript dosyalar'' @ [0x131] @ lit ''n'' @ [0x131] @ lit '' async/defer ile y'' @ [0xfc] @ lit ''kleyin. Kritik CSS'' @ [0x27] @ lit ''i inline yap'' @ [0x131] @ lit ''n.'')),
    (lit ''unused-javascript'',
      ([0x1f4e6] @ lit '' Kullan'' @ [0x131] @ lit ''lmayan JavaScript'' @ [0x27] @ lit ''i Kald'' @ [0x131] @ lit ''r'' @ [0x131] @ lit ''n'',
       lit ''Kullan'' @ [0x131] @ lit ''lmayan JS kodlar'' @ [0x131] @ lit ''n'' @ [0x131] @ lit '' tespit edip silin. Code splitting uygulay'' @ [0x131] @ lit ''n.'')),
    (lit ''unused-css-rules'',
      ([0x1f3a8] @ lit '' Kullan'' @ [0x131] @ lit ''lmayan CSS'' @ [0x27] @ lit ''i Temizleyin'',
       lit ''PurgeCSS veya benzeri ara'' @ [0xe7] @ lit ''larla kullan'' @ [0x131] @ lit ''lmayan stilleri kald'' @ [0x131] @ lit ''r'' @ [0x131] @ lit ''n.'')),
    (lit ''unminified-javascript'',
      ([0x1f4c9] @ lit '' JavaScript'' @ [0x27] @ lit ''i S'' @ [0x131] @ lit ''k'' @ [0x131, 0x15f] @ lit ''t'' @ [0x131] @ lit ''r'' @ [0x131] @ lit ''n'',
       lit ''Terser veya UglifyJS ile JS dosyalar'' @ [0x131] @ lit ''n'' @ [0x131] @ lit '' minify edin.'')),
    (lit ''unminified-css'',
      ([0x1f4c9] @ lit '' CSS'' @ [0x27] @ lit ''i S'' @ [0x131] @ lit ''k'' @ [0x131, 0x15f] @ lit ''t'' @ [0x131] @ lit ''r'' @ [0x131] @ lit ''n'',
       lit ''CSS dosyalar'' @ [0x131] @ lit ''n'' @ [0x131] @ lit '' cssnano veya benzeri ara'' @ [0xe7] @ lit ''larla minify edin.'')),
    (lit ''modern-image-formats'',
      ([0x1f5bc, 0xfe0f] @ lit '' Modern G'' @ [0xf6] @ lit ''rsel Formatlar'' @ [0x131] @ lit ''na Ge'' @ [0xe7] @ lit ''in'',
       lit ''JPEG/PNG yerine WebP veya AVIF formatlar'' @ [0x131] @ lit ''n'' @ [0x131] @ lit '' kullan'' @ [0x131] @ lit ''n. %25-50 tasarruf sa'' @ [0x11f] @ lit ''lar.'')),
    (lit ''uses-optimized-images'',
      ([0x1f5bc, 0xfe0f] @ lit '' G'' @ [0xf6] @ lit ''rselleri Optimize Edin'',
       lit ''G'' @ [0xf6] @ lit ''rselleri s'' @ [0x131] @ lit ''k'' @ [0x131, 0x15f] @ lit ''t'' @ [0x131] @ lit ''r'' @ [0x131] @ lit ''n (TinyPNG, ImageOptim). Boyutlar'' @ [0x131] @ lit '' k'' @ [0xfc, 0xe7, 0xfc] @ lit ''lt'' @ [0xfc] @ lit ''n.'')),
    (lit ''offscreen-images'',
      ([0x1f4f8] @ lit '' G'' @ [0xf6] @ lit ''r'' @ [0xfc] @ lit ''nmeyen G'' @ [0xf6] @ lit ''rselleri Lazy Load Yap'' @ [0x131] @ lit ''n'',
       lit ''loading='' @ [0x27] @ lit ''lazy'' @ [0x27] @ lit '' '' @ [0xf6] @ lit ''zelli'' @ [0x11f] @ lit ''ini ekleyin. Viewport d'' @ [0x131, 0x15f, 0x131] @ lit ''ndaki g'' @ [0xf6] @ lit ''rselleri erteleyin.'')),
    (lit ''uses-responsive-images'',
      ([0x1f4f1] @ lit '' Responsive G'' @ [0xf6] @ lit ''rseller Kullan'' @ [0x131] @ lit ''n'',
       lit ''srcset ve sizes '' @ [0xf6] @ lit ''zelliklerini kullanarak farkl'' @ [0x131] @ lit '' ekranlara uygun g'' @ [0xf6] @ lit ''rseller sunun.'')),
    (lit ''efficiently-encode-images'',
      ([0x1f527] @ lit '' G'' @ [0xf6] @ lit ''rselleri Verimli Kodlay'' @ [0x131] @ lit ''n'',
       lit ''G'' @ [0xf6] @ lit ''rselleri JPEG quality 80-85 ile optimize edin.'')),
    (lit ''uses-text-compression'',
      ([0x1f4e6] @ lit '' Metin S'' @ [0x131] @ lit ''k'' @ [0x131, 0x15f] @ lit ''t'' @ [0x131] @ lit ''rma (Gzip/Brotli) Etkinle'' @ [0x15f] @ lit ''tirin'',
       lit ''Sunucu ayarlar'' @ [0x131] @ lit ''ndan Gzip veya Brotli s'' @ [0x131] @ lit ''k'' @ [0x131, 0x15f] @ lit ''t'' @ [0x131] @ lit ''rmay'' @ [0x131] @ lit '' aktif edin.'')),
    (lit ''uses-rel-preconnect'',
      ([0x1f517] @ lit '' Erken Ba'' @ [0x11f] @ lit ''lant'' @ [0x131] @ lit '' Kurulumunu Etkinle'' @ [0x15f] @ lit ''tirin'',
       lit ''3. parti kaynaklara <link rel='' @ [0x27] @ lit ''preconnect'' @ [0x27] @ lit ''> ekleyin.'')),
    (lit ''uses-rel-preload'',
      ([0x26a1] @ lit '' Kritik Kaynaklar'' @ [0x131] @ lit '' '' @ [0xd6] @ lit ''nceden Y'' @ [0xfc] @ lit ''kleyin'',
       [0xd6] @ lit ''nemli font ve CSS dosyalar'' @ [0x131] @ lit ''na <link rel='' @ [0x27] @ lit ''preload'' @ [0x27] @ lit ''> ekleyin.'')),
    (lit ''server-response-time'',
      ([0x1f5a5, 0xfe0f] @ lit '' Sunucu Yan'' @ [0x131] @ lit ''t S'' @ [0xfc] @ lit ''resini Azalt'' @ [0x131] @ lit ''n (TTFB)'',
       lit ''CDN kullan'' @ [0x131] @ lit ''n, veritaban'' @ [0x131] @ lit '' sorgular'' @ [0x131] @ lit ''n'' @ [0x131] @ lit '' optimize edin, caching ekleyin.'')),
    (lit ''redirects'',
      ([0x1f500] @ lit '' Y'' @ [0xf6] @ lit ''nlendirmeleri Azalt'' @ [0x131] @ lit ''n'',
       lit ''Gereksiz redirect zincirlerini kald'' @ [0x131] @ lit ''r'' @ [0x131] @ lit ''n. Do'' @ [0x11f] @ lit ''rudan URL'' @ [0x27] @ lit ''lere y'' @ [0xf6] @ lit ''nlendirin.'')),
    (lit ''uses-http2'',
      ([0x1f310] @ lit '' HTTP/2 Protokol'' @ [0xfc] @ lit ''n'' @ [0xfc] @ lit '' Kullan'' @ [0x131] @ lit ''n'',
       lit ''Sunucunuzu HTTP/2 destekleyecek '' @ [0x15f] @ lit ''ekilde yap'' @ [0x131] @ lit ''land'' @ [0x131] @ lit ''r'' @ [0x131] @ lit ''n.'')),
    (lit ''dom-size'',
      ([0x1f4c4] @ lit '' DOM Boyutunu K'' @ [0xfc, 0xe7, 0xfc] @ lit ''lt'' @ [0xfc] @ lit ''n'',
       lit ''Gereksiz HTML elementlerini kald'' @ [0x131] @ lit ''r'' @ [0x131] @ lit ''n. Virtual scrolling uygulay'' @ [0x131] @ lit ''n.'')),
    (lit ''critical-request-chains'',
      ([0x26d3, 0xfe0f] @ lit '' Kritik '' @ [0x130] @ lit ''stek Zincirlerini K'' @ [0x131] @ lit ''salt'' @ [0x131] @ lit ''n'',
       lit ''Kritik kaynaklar'' @ [0x131] @ lit '' inline yap'' @ [0x131] @ lit ''n veya preload ile '' @ [0xf6] @ lit ''nceden y'' @ [0xfc] @ lit ''kleyin.'')),
    (lit ''bootup-time'',
      ([0x23f1, 0xfe0f] @ lit '' JavaScript '' @ [0xc7] @ lit ''al'' @ [0x131, 0x15f] @ lit ''ma S'' @ [0xfc] @ lit ''resini Azalt'' @ [0x131] @ lit ''n'',
       lit ''A'' @ [0x11f, 0x131] @ lit ''r JS i'' @ [0x15f] @ lit ''lemlerini Web Worker'' @ [0x27] @ lit ''lara ta'' @ [0x15f, 0x131] @ lit ''y'' @ [0x131] @ lit ''n. Code splitting yap'' @ [0x131] @ lit ''n.'')),
    (lit ''mainthread-work-breakdown'',
      ([0x1f9f5] @ lit '' Ana '' @ [0x130, 0x15f] @ lit '' Par'' @ [0xe7] @ lit ''ac'' @ [0x131, 0x11f, 0x131] @ lit '' Y'' @ [0xfc] @ lit ''k'' @ [0xfc] @ lit ''n'' @ [0xfc] @ lit '' Azalt'' @ [0x131] @ lit ''n'',
       lit ''JS '' @ [0xe7] @ lit ''al'' @ [0x131, 0x15f] @ lit ''mas'' @ [0x131] @ lit ''n'' @ [0x131] @ lit '' optimize edin. Uzun g'' @ [0xf6] @ lit ''revleri par'' @ [0xe7] @ lit ''alara ay'' @ [0x131] @ lit ''r'' @ [0x131] @ lit ''n.'')),
    (lit ''font-display'',
      ([0x1f524] @ lit '' Font G'' @ [0xf6] @ lit ''r'' @ [0xfc] @ lit ''nt'' @ [0xfc] @ lit ''leme Stratejisini Optimize Edin'',
       lit ''font-display: swap kullanarak FOIT sorununu '' @ [0xf6] @ lit ''nleyin.'')),
    (lit ''third-party-summary'',
      ([0x1f50c] @ lit '' 3. Parti Scriptleri Optimize Edin'',
       lit ''Gereksiz 3. parti scriptleri kald'' @ [0x131] @ lit ''r'' @ [0x131] @ lit ''n veya erteleyin (analytics, chat widget vb.)'')),
    (lit ''largest-contentful-paint-element'',
      ([0x1f3af] @ lit '' LCP Elementini Optimize Edin'',
       lit ''Ana hero g'' @ [0xf6] @ lit ''rselini preload yap'' @ [0x131] @ lit ''n. CDN kullan'' @ [0x131] @ lit ''n. Boyutunu k'' @ [0xfc, 0xe7, 0xfc] @ lit ''lt'' @ [0xfc] @ lit ''n.'')),
    (lit ''lcp-lazy-loaded'',
      ([0x26a0, 0xfe0f] @ lit '' LCP G'' @ [0xf6] @ lit ''rseli Lazy Load Edilmi'' @ [0x15f],
       lit ''LCP (hero) g'' @ [0xf6] @ lit ''rselinden loading='' @ [0x27] @ lit ''lazy'' @ [0x27] @ lit '' '' @ [0xf6] @ lit ''zelli'' @ [0x11f] @ lit ''ini kald'' @ [0x131] @ lit ''r'' @ [0x131] @ lit ''n!'')),
    (lit ''total-blocking-time'',
      ([0x23f3] @ lit '' Toplam Engelleme S'' @ [0xfc] @ lit ''resini Azalt'' @ [0x131] @ lit ''n'',
       lit ''Uzun JavaScript g'' @ [0xf6] @ lit ''revlerini b'' @ [0xf6] @ lit ''l'' @ [0xfc] @ lit ''n. Ana thread'' @ [0x27] @ lit ''i serbest b'' @ [0x131] @ lit ''rak'' @ [0x131] @ lit ''n.'')),
    (lit ''cumulative-layout-shift'',
      ([0x1f4d0] @ lit '' G'' @ [0xf6] @ lit ''rsel Kaymalar'' @ [0x131] @ lit '' (CLS) Engelleyin'',
       lit ''G'' @ [0xf6] @ lit ''rsel ve iframe'' @ [0x27] @ lit ''lere width/height ekleyin. Font FOUT'' @ [0x27] @ lit ''unu '' @ [0xf6] @ lit ''nleyin.'')),
    (lit ''prioritize-lcp-image'',
      ([0x1f5bc, 0xfe0f] @ lit '' LCP G'' @ [0xf6] @ lit ''rselini '' @ [0xd6] @ lit ''nceliklendirin'',
       lit ''fetchpriority='' @ [0x27] @ lit ''high'' @ [0x27] @ lit '' ve preload ile LCP g'' @ [0xf6] @ lit ''rselini '' @ [0xf6] @ lit ''nceliklendirin.'')),
    (lit ''legacy-javascript'',
      ([0x1f4dc] @ lit '' Eski JavaScript Polyfill'' @ [0x27] @ lit ''leri Kald'' @ [0x131] @ lit ''r'' @ [0x131] @ lit ''n'',
       lit ''Modern taray'' @ [0x131] @ lit ''c'' @ [0x131] @ lit ''lar i'' @ [0xe7] @ lit ''in gereksiz polyfill'' @ [0x27] @ lit ''leri kald'' @ [0x131] @ lit ''r'' @ [0x131] @ lit ''n.'')),
    (lit ''duplicated-javascript'',
      ([0x1f4e6] @ lit '' Tekrarlanan JS Mod'' @ [0xfc] @ lit ''llerini Temizleyin'',
       lit ''Webpack/Rollup bundle analizi yap'' @ [0x131] @ lit ''n, duplicate mod'' @ [0xfc] @ lit ''lleri kald'' @ [0x131] @ lit ''r'' @ [0x131] @ lit ''n.''))
  ]"

section \<open>The recommendation extractor\<close>

record recommendation =
  title :: json
  action :: pystr
  display_value :: json
  savings_ms :: json
  savings_bytes :: json

text \<open>The dict the loop appends: the five fields returned, and three more
  (\<open>opp_score\<close> is its key \<open>score\<close>).\<close>

record opportunity = recommendation +
  audit_id :: pystr
  savings :: rat
  opp_score :: json

text \<open>\<open>score is None or score >= 0.9\<close>\<close>

fun score_skipped :: "json \<Rightarrow> py_error + bool" where
  "score_skipped JNull = Inr True"
| "score_skipped v = (case num_of v of Some s \<Rightarrow> Inr (s \<ge> 9 / 10) | None \<Rightarrow> Inl TypeError)"

text \<open>The savings suffix of the action text.\<close>

definition savings_text :: "rat \<Rightarrow> rat \<Rightarrow> pystr" where
  "savings_text ms bytes =
     (if ms > 0 then lit '' (~'' @ show_int (py_int ms) @ lit ''ms tasarruf)''
      else if bytes > 0 then lit '' (~'' @ show_int (py_int (bytes / 1024)) @ lit ''KB tasarruf)''
      else [])"

text \<open>
  \<open>translation.get("title", audit_data.get("title", "Bilinmeyen Tavsiye"))\<close> and
  \<open>translation.get("action", audit_data.get("description", "")[:150])\<close>. Python
  evaluates the default argument first, so the slice can raise even when the table has
  the identifier. Every entry of the table has both keys.
\<close>

definition tr_title :: "pystr \<Rightarrow> json \<Rightarrow> py_error + json" where
  "tr_title aid audit_data =
     and_then (dict_get audit_data (lit ''title'') (JStr (lit ''Bilinmeyen Tavsiye''))) (\<lambda>raw.
       Inr (case map_of AUDIT_TRANSLATIONS aid of Some (t, a) \<Rightarrow> JStr t | None \<Rightarrow> raw))"

definition tr_action :: "pystr \<Rightarrow> json \<Rightarrow> py_error + json" where
  "tr_action aid audit_data =
     and_then (dict_get audit_data (lit ''description'') (JStr [])) (\<lambda>description.
     and_then (slice150 description) (\<lambda>short.
       Inr (case map_of AUDIT_TRANSLATIONS aid of Some (t, a) \<Rightarrow> JStr a | None \<Rightarrow> short)))"

text \<open>
  The body of \<open>if is_opportunity or has_savings:\<close>, which builds the dict that is
  appended. The statements are in the order of the source, so that the first one to
  raise decides the error: \<open>savings_bytes / 1000\<close> is evaluated before the sum.
\<close>

definition build_opportunity :: "pystr \<Rightarrow> json \<Rightarrow> json \<Rightarrow> json \<Rightarrow> py_error + opportunity" where
  "build_opportunity aid audit_data details score =
     and_then (dict_get details (lit ''overallSavingsMs'') (JNum (PyInt 0))) (\<lambda>ms.
     and_then (dict_get details (lit ''overallSavingsBytes'') (JNum (PyInt 0))) (\<lambda>bytes.
     and_then (as_num bytes) (\<lambda>b.
     and_then (as_num ms) (\<lambda>m.
     and_then (tr_title aid audit_data) (\<lambda>t.
     and_then (tr_action aid audit_data) (\<lambda>a.
     and_then (dict_get audit_data (lit ''displayValue'') (JStr [])) (\<lambda>dv.
     and_then (str_add a (savings_text m b)) (\<lambda>act.
       Inr \<lparr> title = t, action = act, display_value = dv,
             savings_ms = ms, savings_bytes = bytes,
             audit_id = aid, savings = m + b / 1000, opp_score = score \<rparr>))))))))"

text \<open>
  The body of the loop over \<open>audits.items()\<close> for one item: \<open>Inr None\<close> when the
  item is skipped, \<open>Inr (Some opp)\<close> when \<open>opp\<close> is appended, \<open>Inl e\<close> when the body
  raises. \<open>details\<close> and its \<open>type\<close> are read before the score is looked at.
\<close>

definition audit_entry :: "pystr \<Rightarrow> json \<Rightarrow> py_error + opportunity option" where
  "audit_entry aid audit_data =
     and_then (dict_get audit_data (lit ''details'') (JObj [])) (\<lambda>details.
     and_then (dict_get details (lit ''type'') (JStr [])) (\<lambda>audit_type.
     and_then (dict_get audit_data (lit ''score'') JNull) (\<lambda>score.
     and_then (score_skipped score) (\<lambda>skip.
       if skip then Inr None
       else
         let is_opportunity = (audit_type = JStr (lit ''opportunity''));
             has_savings = (has_key details (lit ''overallSavingsMs'')
                            \<or> has_key details (lit ''overallSavingsBytes''))
         in
         if is_opportunity \<or> has_savings
         then and_then (build_opportunity aid audit_data details score) (\<lambda>opp. Inr (Some opp))
         else Inr None))))"

text \<open>The loop: the list \<open>opportunities\<close> after the last item, or the first error.\<close>

fun collect :: "(pystr \<times> json) list \<Rightarrow> py_error + opportunity list" where
  "collect [] = Inr []"
| "collect ((aid, audit_data) # rest) =
     and_then (audit_entry aid audit_data) (\<lambda>r.
     and_then (collect rest) (\<lambda>opps.
       Inr (case r of None \<Rightarrow> opps | Some opp \<Rightarrow> opp # opps)))"

text \<open>
  \<open>opportunities.sort(key=lambda x: x["savings"], reverse=True)\<close>: Python's sort is
  stable, and with \<open>reverse=True\<close> items of equal key keep their order. That is the
  stable ascending sort on the negated key.
\<close>

definition sort_desc :: "opportunity list \<Rightarrow> opportunity list" where
  "sort_desc opps = sort_key (\<lambda>x. - savings x) opps"

definition strip :: "opportunity \<Rightarrow> recommendation" where
  "strip opp = \<lparr> title = title opp, action = action opp, display_value = display_value opp,
                 savings_ms = savings_ms opp, savings_bytes = savings_bytes opp \<rparr>"

definition extract_smart_recommendations :: "json \<Rightarrow> py_error + recommendation list" where
  "extract_smart_recommendations audits =
     (case audits of
        JObj kvs \<Rightarrow> and_then (collect kvs) (\<lambda>opps. Inr (map strip (sort_desc opps)))
      | _ \<Rightarrow> Inl AttributeError)"

text \<open>
  The ranking key as the specification words it, read off a record's own fields:
  \<open>overallSavingsMs + overallSavingsBytes / 1000\<close>.
\<close>

definition rank_key :: "'a recommendation_scheme \<Rightarrow> rat" where
  "rank_key r =
     (case (num_of (savings_ms r), num_of (savings_bytes r)) of
        (Some m, Some b) \<Rightarrow> m + b / 1000
      | _ \<Rightarrow> 0)"

subsection \<open>Example audits\<close>

text \<open>Audit records used to run the extractor on concrete input, and the
  recommendations it returns for them.\<close>

definition ex_ms :: json where
  "ex_ms = JObj [(lit ''score'', JNum (PyFloat (1 / 2))),
                 (lit ''title'', JStr (lit ''T one'')),
                 (lit ''description'', JStr (lit ''Do one'')),
                 (lit ''details'', JObj [(lit ''type'', JStr (lit ''opportunity'')),
                                         (lit ''overallSavingsMs'', JNum (PyInt 1500))])]"

definition ex_bytes :: json where
  "ex_bytes = JObj [(lit ''score'', JNum (PyFloat (89999 / 100000))),
                    (lit ''title'', JStr (lit ''T two'')),
                    (lit ''description'', JStr (lit ''Do two'')),
                    (lit ''details'', JObj [(lit ''overallSavingsBytes'', JNum (PyInt 2048))])]"

definition ex_zero :: json where
  "ex_zero = JObj [(lit ''score'', JNum (PyInt 0)),
                   (lit ''title'', JStr (lit ''T three'')),
                   (lit ''description'', JStr (lit ''Do three'')),
                   (lit ''details'', JObj [(lit ''type'', JStr (lit ''opportunity'')),
                                           (lit ''overallSavingsMs'', JNum (PyInt 0)),
                                           (lit ''overallSavingsBytes'', JNum (PyInt 0))])]"

definition ex_good :: json where
  "ex_good = JObj [(lit ''score'', JNum (PyFloat (9 / 10))),
                   (lit ''title'', JStr (lit ''T four'')),
                   (lit ''description'', JStr (lit ''Do four'')),
                   (lit ''details'', JObj [(lit ''type'', JStr (lit ''opportunity'')),
                                           (lit ''overallSavingsMs'', JNum (PyInt 9000))])]"

definition ex_null :: json where
  "ex_null = JObj [(lit ''score'', JNull),
                   (lit ''title'', JStr (lit ''T five'')),
                   (lit ''description'', JStr (lit ''Do five'')),
                   (lit ''details'', JObj [(lit ''type'', JStr (lit ''opportunity'')),
                                           (lit ''overallSavingsMs'', JNum (PyInt 9000))])]"

definition ex_tie :: json where
  "ex_tie = JObj [(lit ''score'', JNum (PyFloat (1 / 10))),
                  (lit ''title'', JStr (lit ''T six'')),
                  (lit ''description'', JStr (lit ''Do six'')),
                  (lit ''details'', JObj [(lit ''overallSavingsMs'', JNum (PyFloat 1500))])]"

definition ex_table :: json where
  "ex_table = JObj [(lit ''score'', JNum (PyFloat (1 / 5))),
                    (lit ''title'', JStr (lit ''T seven'')),
                    (lit ''description'', JStr (lit ''Do seven'')),
                    (lit ''details'', JObj [(lit ''type'', JStr (lit ''table''))])]"

definition rec_ms :: recommendation where
  "rec_ms = \<lparr>title = JStr (lit ''T one''), action = lit ''Do one (~1500ms tasarruf)'',
              display_value = JStr [], savings_ms = JNum (PyInt 1500),
              savings_bytes = JNum (PyInt 0)\<rparr>"

definition rec_tie :: recommendation where
  "rec_tie = \<lparr>title = JStr (lit ''T six''), action = lit ''Do six (~1500ms tasarruf)'',
              display_value = JStr [], savings_ms = JNum (PyFloat 1500),
              savings_bytes = JNum (PyInt 0)\<rparr>"

definition rec_bytes :: recommendation where
  "rec_bytes = \<lparr>title = JStr (lit ''T two''), action = lit ''Do two (~2KB tasarruf)'',
              display_value = JStr [], savings_ms = JNum (PyInt 0),
              savings_bytes = JNum (PyInt 2048)\<rparr>"

definition rec_zero :: recommendation where
  "rec_zero = \<lparr>title = JStr (lit ''T three''), action = lit ''Do three'',
              display_value = JStr [], savings_ms = JNum (PyInt 0),
              savings_bytes = JNum (PyInt 0)\<rparr>"

section \<open>The metrics analyzer\<close>

record metrics =
  score :: int
  lcp :: rat
  cls :: pynum
  recommendations :: "recommendation list"

text \<open>Truth value of a Python object, as \<open>or\<close> and \<open>if\<close> test it.\<close>

fun py_truthy :: "json \<Rightarrow> bool" where
  "py_truthy JNull = False"
| "py_truthy (JBool b) = b"
| "py_truthy (JNum n) = (value_of n \<noteq> 0)"
| "py_truthy (JStr s) = (s \<noteq> [])"
| "py_truthy (JArr xs) = (xs \<noteq> [])"
| "py_truthy (JObj kvs) = (kvs \<noteq> [])"

text \<open>
  \<open>int((x or 0) * 100)\<close>. A false \<open>x\<close> gives \<open>int(0 * 100)\<close>. On a number the product
  is truncated toward zero. A string is repeated 100 times and parsed: Python's
  parser of integer literals is the parameter \<open>int_of_str\<close> (\<open>None\<close> for
  \<open>ValueError\<close>). A list is repeated and \<open>int\<close> refuses it; a dict cannot be
  multiplied.
\<close>

definition scaled_score :: "(pystr \<Rightarrow> int option) \<Rightarrow> json \<Rightarrow> py_error + int" where
  "scaled_score int_of_str x =
     (if \<not> py_truthy x then Inr 0
      else case x of
          JStr s \<Rightarrow> (case int_of_str (concat (replicate 100 s)) of
                       Some i \<Rightarrow> Inr i | None \<Rightarrow> Inl ValueError)
        | JArr xs \<Rightarrow> Inl TypeError
        | JObj kvs \<Rightarrow> Inl TypeError
        | _ \<Rightarrow> (case num_of x of Some v \<Rightarrow> Inr (py_int (v * 100)) | None \<Rightarrow> Inl TypeError))"

text \<open>\<open>round(x, n)\<close> on a float: to the nearest multiple of \<open>10 ** -n\<close>, a tie to the
  even one.\<close>

definition round_half_even :: "rat \<Rightarrow> int" where
  "round_half_even x =
     (let f = \<lfloor>x\<rfloor>; d = x - of_int f
      in if d < 1 / 2 then f else if 1 / 2 < d then f + 1 else if even f then f else f + 1)"

definition py_round :: "rat \<Rightarrow> nat \<Rightarrow> rat" where
  "py_round x n = of_int (round_half_even (x * 10 ^ n)) / 10 ^ n"

text \<open>\<open>round(lcp_ms / 1000, 2)\<close>: the quotient is a float.\<close>

definition lcp_seconds :: "json \<Rightarrow> py_error + rat" where
  "lcp_seconds lcp_ms = and_then (as_num lcp_ms) (\<lambda>ms. Inr (py_round (ms / 1000) 2))"

text \<open>\<open>round(v, 4)\<close>: an \<open>int\<close> (and a \<open>bool\<close>) comes back as the same \<open>int\<close>.\<close>

fun cls_value :: "json \<Rightarrow> py_error + pynum" where
  "cls_value (JNum (PyInt i)) = Inr (PyInt i)"
| "cls_value (JNum (PyFloat r)) = Inr (PyFloat (py_round r 4))"
| "cls_value (JBool b) = Inr (PyInt (if b then 1 else 0))"
| "cls_value _ = Inl TypeError"

text \<open>The statements of the \<open>try\<close> block after \<open>data = response.json()\<close>.\<close>

definition read_metrics :: "(pystr \<Rightarrow> int option) \<Rightarrow> json \<Rightarrow> py_error + metrics" where
  "read_metrics int_of_str data =
     and_then (dict_get data (lit ''lighthouseResult'') (JObj [])) (\<lambda>lighthouse.
     and_then (dict_get lighthouse (lit ''categories'') (JObj [])) (\<lambda>categories.
     and_then (dict_get lighthouse (lit ''audits'') (JObj [])) (\<lambda>audits.
     and_then (dict_get categories (lit ''performance'') (JObj [])) (\<lambda>perf_category.
     and_then (dict_get perf_category (lit ''score'') (JNum (PyInt 0))) (\<lambda>raw.
     and_then (scaled_score int_of_str raw) (\<lambda>s.
     and_then (dict_get audits (lit ''largest-contentful-paint'') (JObj [])) (\<lambda>lcp_audit.
     and_then (dict_get lcp_audit (lit ''numericValue'') (JNum (PyInt 0))) (\<lambda>lcp_ms.
     and_then (lcp_seconds lcp_ms) (\<lambda>l.
     and_then (dict_get audits (lit ''cumulative-layout-shift'') (JObj [])) (\<lambda>cls_audit.
     and_then (dict_get cls_audit (lit ''numericValue'') (JNum (PyInt 0))) (\<lambda>cls_raw.
     and_then (cls_value cls_raw) (\<lambda>c.
     and_then (extract_smart_recommendations audits) (\<lambda>recs.
       Inr \<lparr> score = s, lcp = l, cls = c, recommendations = recs \<rparr>)))))))))))))"

text \<open>
  What \<open>requests.get\<close> does: it raises (\<open>requests.exceptions.Timeout\<close>, another
  \<open>RequestException\<close> such as a connection failure, or any other exception), or it
  returns a response, of which the analyzer reads the status code and the body
  through \<open>response.json()\<close> (\<open>None\<close> when the body is not JSON). An interrupt, which
  is no \<open>Exception\<close>, is not a behaviour of the call and is left out.
\<close>

datatype request_fault = TimedOut | RequestFailed | OtherFault py_error

datatype reply = Fails request_fault | Response nat "json option"

text \<open>
  What the \<open>try\<close> block can raise, by the \<open>except\<close> clause that takes it. \<open>HTTPError\<close>
  comes from \<open>raise_for_status\<close> only and carries the response its handler reads.
\<close>

datatype raised =
    Timeout
  | HTTPError nat "json option"
  | RequestException
  | Builtin py_error

text \<open>\<open>response.raise_for_status()\<close> raises \<open>HTTPError\<close> for a status from 400 to 599.\<close>

definition raise_for_status :: "nat \<Rightarrow> bool" where
  "raise_for_status status = (400 \<le> status \<and> status < 600)"

text \<open>A body that is not JSON makes \<open>response.json()\<close> raise a \<open>JSONDecodeError\<close>, which
  is a \<open>RequestException\<close>.\<close>

definition try_block :: "(pystr \<Rightarrow> int option) \<Rightarrow> reply \<Rightarrow> raised + metrics" where
  "try_block int_of_str r =
     (case r of
        Fails TimedOut \<Rightarrow> Inl Timeout
      | Fails RequestFailed \<Rightarrow> Inl RequestException
      | Fails (OtherFault e) \<Rightarrow> Inl (Builtin e)
      | Response status body \<Rightarrow>
          if raise_for_status status then Inl (HTTPError status body)
          else (case body of
                  None \<Rightarrow> Inl RequestException
                | Some data \<Rightarrow> (case read_metrics int_of_str data of
                                 Inl e \<Rightarrow> Inl (Builtin e)
                               | Inr m \<Rightarrow> Inr m)))"

text \<open>\<open>x[0]\<close>\<close>

fun first_item :: "json \<Rightarrow> py_error + json" where
  "first_item (JArr (x # xs)) = Inr x"
| "first_item (JArr []) = Inl IndexError"
| "first_item (JStr (c # cs)) = Inr (JStr [c])"
| "first_item (JStr []) = Inl IndexError"
| "first_item (JObj kvs) = Inl KeyError"
| "first_item _ = Inl TypeError"

text \<open>
  The inner \<open>try\<close> of the \<open>HTTPError\<close> handler: the message and reason of a structured
  error body, or, when anything in it raises, the raw text.
\<close>

datatype http_detail = ApiMessage json json | RawText

definition error_detail :: "json option \<Rightarrow> http_detail" where
  "error_detail body =
     (case body of
        None \<Rightarrow> RawText
      | Some error_json \<Rightarrow>
          (case and_then (dict_get error_json (lit ''error'') (JObj [])) (\<lambda>err.
                and_then (dict_get err (lit ''message'') (JStr (lit ''Bilinmeyen hata''))) (\<lambda>msg.
                and_then (dict_get err (lit ''errors'') (JArr [JObj []])) (\<lambda>errs.
                and_then (first_item errs) (\<lambda>first.
                and_then (dict_get first (lit ''reason'') (JStr [])) (\<lambda>reason.
                  Inr (msg, reason)))))) of
             Inl e \<Rightarrow> RawText
           | Inr (msg, reason) \<Rightarrow> ApiMessage msg reason))"

text \<open>What the call logs: the success line, or the lines of one \<open>except\<close> clause.\<close>

datatype logged =
    AnalysisDone
  | TimeoutLogged
  | HttpErrorLogged nat http_detail
  | ConnectionLogged
  | MissingFieldLogged
  | UnexpectedLogged

text \<open>
  \<open>analyze\<close> from its \<open>try\<close> statement on, as a function of what the request does:
  the log entry and the value returned (\<open>None\<close> is Python's \<open>None\<close>). The clauses are
  tried in the order of the source; an exception none of them takes would be raised
  to the caller, which is the result \<open>Inl\<close>.
\<close>

definition analyze :: "(pystr \<Rightarrow> int option) \<Rightarrow> reply \<Rightarrow> raised + (logged \<times> metrics option)" where
  "analyze int_of_str r =
     (case try_block int_of_str r of
        Inr m \<Rightarrow> Inr (AnalysisDone, Some m)
      | Inl Timeout \<Rightarrow> Inr (TimeoutLogged, None)
      | Inl (HTTPError status body) \<Rightarrow> Inr (HttpErrorLogged status (error_detail body), None)
      | Inl RequestException \<Rightarrow> Inr (ConnectionLogged, None)
      | Inl (Builtin KeyError) \<Rightarrow> Inr (MissingFieldLogged, None)
      | Inl (Builtin e) \<Rightarrow> Inr (UnexpectedLogged, None))"

text \<open>Rounding to the nearest integer, as the specification words the score.\<close>

definition rounded_percent :: "rat \<Rightarrow> int" where
  "rounded_percent x = round_half_even (x * 100)"

section \<open>The report composer\<close>

text \<open>A site result: the metrics of the analysis with the label and URL of the site.\<close>

record site_result = metrics +
  label :: pystr
  url :: pystr

text \<open>\<open>s.ljust(n)\<close> pads with spaces on the right and never shortens; \<open>s.center(n)\<close>
  pads on both sides, the odd space going to the left when \<open>n\<close> is odd.\<close>

definition ljust :: "nat \<Rightarrow> pystr \<Rightarrow> pystr" where
  "ljust n s = s @ replicate (n - length s) 32"

definition center :: "nat \<Rightarrow> pystr \<Rightarrow> pystr" where
  "center n s =
     (let marg = n - length s;
          left = marg div 2 + (if odd marg \<and> odd n then 1 else 0)
      in replicate left 32 @ s @ replicate (marg - left) 32)"

text \<open>A line of the box: the text between two vertical border characters.\<close>

definition boxed :: "pystr \<Rightarrow> pystr" where
  "boxed s = 0x2551 # s @ [0x2551]"

definition rule_line :: "nat \<Rightarrow> nat \<Rightarrow> pystr" where
  "rule_line l r = l # replicate 58 0x2550 @ [r]"

definition blank_row :: pystr where
  "blank_row = boxed (ljust 58 (lit '' ''))"

text \<open>
  A value in an f-string: a \<open>str\<close> is itself and an \<open>int\<close> is its decimal text. The
  text of any other value (a float, a list) is Python's \<open>str()\<close> of it, the parameter
  \<open>py_str\<close>.
\<close>

definition fmt :: "(json \<Rightarrow> pystr) \<Rightarrow> json \<Rightarrow> pystr" where
  "fmt py_str v = (case v of JStr s \<Rightarrow> s | JNum (PyInt i) \<Rightarrow> show_int i | _ \<Rightarrow> py_str v)"

text \<open>The line of one competitor in the comparison section.\<close>

definition comparison_line :: "int \<Rightarrow> 'a site_result_scheme \<Rightarrow> pystr" where
  "comparison_line my_score cmp =
     (let diff = my_score - score cmp;
          status =
            (if 0 < diff then [0x2705] @ lit '' '' @ label cmp
             else if diff < 0 then [0x26a0, 0xfe0f] @ lit ''  '' @ label cmp
             else [0x1f504] @ lit '' '' @ label cmp);
          detail =
            (if 0 < diff then
               [0x2192] @ lit '' '' @ show_int (score cmp) @ lit '' puan ('' @ show_int diff
                 @ lit '' puan gerideler)''
             else if diff < 0 then
               [0x2192] @ lit '' '' @ show_int (score cmp) @ lit '' puan ('' @ show_int \<bar>diff\<bar>
                 @ lit '' puan '' @ [0xd6] @ lit ''NDEler!)''
             else
               [0x2192] @ lit '' '' @ show_int (score cmp) @ lit '' puan (E'' @ [0x15f] @ lit ''it)'')
      in boxed (ljust 58 (lit ''    '' @ ljust 25 status @ lit '' '' @ detail)))"

text \<open>\<open>len(x)\<close>\<close>

fun py_len :: "json \<Rightarrow> py_error + nat" where
  "py_len (JStr s) = Inr (length s)"
| "py_len (JArr xs) = Inr (length xs)"
| "py_len (JObj kvs) = Inr (length kvs)"
| "py_len _ = Inl TypeError"

text \<open>
  The title as it goes into the title line: \<open>title[:45] + "..."\<close> when
  \<open>len(title) > 48\<close>. Only a string can be cut that way.
\<close>

definition short_title :: "(json \<Rightarrow> pystr) \<Rightarrow> json \<Rightarrow> py_error + pystr" where
  "short_title py_str t =
     and_then (py_len t) (\<lambda>n.
       if 48 < n then (case t of JStr s \<Rightarrow> Inr (take 45 s @ lit ''...'') | _ \<Rightarrow> Inl TypeError)
       else Inr (fmt py_str t))"

text \<open>A line cut to 53 characters and an ellipsis when it is longer than 56.\<close>

definition cap56 :: "pystr \<Rightarrow> pystr" where
  "cap56 s = (if 56 < length s then take 53 s @ lit ''...'' else s)"

definition priority_emoji :: "nat \<Rightarrow> nat" where
  "priority_emoji i = (if i = 1 then 0x1f534 else if i \<le> 3 then 0x1f7e0 else 0x1f7e1)"

text \<open>\<open>str.isspace\<close> of one character, and \<open>action.split()\<close>: the maximal runs of
  characters that are not whitespace.\<close>

definition is_space :: "nat \<Rightarrow> bool" where
  "is_space c \<longleftrightarrow>
     (9 \<le> c \<and> c \<le> 13) \<or> (28 \<le> c \<and> c \<le> 32) \<or> c = 0x85 \<or> c = 0xa0 \<or> c = 0x1680
     \<or> (0x2000 \<le> c \<and> c \<le> 0x200a) \<or> c = 0x2028 \<or> c = 0x2029 \<or> c = 0x202f
     \<or> c = 0x205f \<or> c = 0x3000"

fun split_ws :: "pystr \<Rightarrow> pystr \<Rightarrow> pystr list" where
  "split_ws cur [] = (if cur = [] then [] else [cur])"
| "split_ws cur (c # cs) =
     (if is_space c then (if cur = [] then split_ws [] cs else cur # split_ws [] cs)
      else split_ws (cur @ [c]) cs)"

definition py_split :: "pystr \<Rightarrow> pystr list" where
  "py_split s = split_ws [] s"

text \<open>
  The loop over \<open>words\<close>: \<open>wrap_words current_line words\<close> is the list of lines
  appended from here on, the last one only when \<open>current_line.strip()\<close> is not empty.
\<close>

fun wrap_words :: "pystr \<Rightarrow> pystr list \<Rightarrow> pystr list" where
  "wrap_words cur [] = (if list_ex (\<lambda>c. \<not> is_space c) cur then [cur] else [])"
| "wrap_words cur (w # ws) =
     (if length (cur @ w) \<le> 54 then wrap_words (cur @ w @ lit '' '') ws
      else cur # wrap_words (lit ''         '' @ w @ lit '' '') ws)"

text \<open>The action block of a recommendation, shown for the ranks up to 5.\<close>

definition action_block :: "nat \<Rightarrow> pystr \<Rightarrow> pystr list" where
  "action_block i act =
     (if i \<le> 5 \<and> act \<noteq> []
      then map (\<lambda>l. boxed (ljust 58 l))
             (wrap_words (lit ''       '' @ [0x2192] @ lit '' '') (py_split act))
      else [])"

text \<open>The lines of the recommendation of rank \<open>i\<close> among \<open>total_recs\<close>.\<close>

definition item_lines :: "(json \<Rightarrow> pystr) \<Rightarrow> nat \<Rightarrow> nat \<Rightarrow> recommendation \<Rightarrow> py_error + pystr list" where
  "item_lines py_str total_recs i r =
     and_then (short_title py_str (title r)) (\<lambda>t.
       let display_val = (if py_truthy (display_value r)
                          then lit '' ['' @ fmt py_str (display_value r) @ lit '']'' else []);
           title_line = cap56 (lit ''    '' @ [priority_emoji i] @ lit '' '' @ show_int (int i)
                               @ lit ''. '' @ t);
           dv_lines = (if display_val \<noteq> []
                       then [boxed (ljust 58 (cap56 (lit ''       Potansiyel Kazan'' @ [0xe7]
                                                    @ lit '': '' @ display_val)))]
                       else [])
       in Inr ([boxed (ljust 58 title_line)] @ dv_lines @ action_block i (action r)
               @ (if i mod 3 = 0 \<and> i < total_recs then [blank_row] else [])))"

text \<open>The loop \<open>for i, rec in enumerate(recommendations, 1)\<close>, from rank \<open>i\<close> on.\<close>

fun items :: "(json \<Rightarrow> pystr) \<Rightarrow> nat \<Rightarrow> nat \<Rightarrow> recommendation list \<Rightarrow> py_error + pystr list" where
  "items py_str total_recs i [] = Inr []"
| "items py_str total_recs i (r # rs) =
     and_then (item_lines py_str total_recs i r) (\<lambda>ls.
     and_then (items py_str total_recs (Suc i) rs) (\<lambda>rest. Inr (ls @ rest)))"

text \<open>The line that counts the recommendations, and the line shown when there are
  none.\<close>

definition count_line :: "nat \<Rightarrow> pystr" where
  "count_line n = boxed (ljust 58 (lit ''    Toplam '' @ show_int (int n)
                  @ lit '' iyile'' @ [0x15f] @ lit ''tirme f'' @ [0x131] @ lit ''rsat'' @ [0x131]
                  @ lit '' bulundu:''))"

definition congratulation :: pystr where
  "congratulation = boxed (ljust 58 (lit ''    '' @ [0x1f389] @ lit '' Harika! Kritik bir iyile''
                  @ [0x15f] @ lit ''tirme '' @ [0xf6] @ lit ''nerisi yok.''))"

text \<open>The action-items section below its heading.\<close>

definition action_items :: "(json \<Rightarrow> pystr) \<Rightarrow> recommendation list \<Rightarrow> py_error + pystr list" where
  "action_items py_str recs =
     (if recs \<noteq> [] then
        and_then (items py_str (length recs) 1 recs) (\<lambda>ls.
          Inr ([count_line (length recs), blank_row] @ ls))
      else Inr [congratulation])"

text \<open>
  The lines from the top border to the blank row that opens the comparison section.
  \<open>date_str\<close> is the date as \<open>strftime\<close> printed it.
\<close>

definition header_lines :: "(json \<Rightarrow> pystr) \<Rightarrow> pystr \<Rightarrow> site_result \<Rightarrow> pystr list" where
  "header_lines py_str date_str my_site =
     [rule_line 0x2554 0x2557,
      boxed (center 58 ([0x1f680] @ lit '' SEO-PULSE PERFORMANS RAPORU'')),
      boxed (center 58 date_str),
      rule_line 0x2560 0x2563,
      boxed (ljust 58 (lit '' '' @ [0x1f4ca] @ lit '' S'' @ [0x130] @ lit ''TEM'' @ [0x130] @ lit ''Z'')),
      boxed (ljust 58 (lit ''    URL: '' @ url my_site)),
      boxed (ljust 58 (lit ''    Performance: '' @ show_int (score my_site)
                       @ lit ''/100 | LCP: '' @ fmt py_str (JNum (PyFloat (lcp my_site)))
                       @ lit ''s | CLS: '' @ fmt py_str (JNum (cls my_site)))),
      rule_line 0x2560 0x2563,
      boxed (ljust 58 (lit '' '' @ [0x1f3c1] @ lit '' RAK'' @ [0x130] @ lit ''P KAR'' @ [0x15e]
                       @ lit ''ILA'' @ [0x15e] @ lit ''TIRMASI'')),
      blank_row]"

text \<open>The heading of the action-items section.\<close>

definition items_heading :: "pystr list" where
  "items_heading =
     [rule_line 0x2560 0x2563,
      boxed (ljust 58 (lit '' '' @ [0x1f4cb] @ lit '' YAPILMASI GEREKENLER (Action Items)'')),
      blank_row]"

text \<open>The list \<open>report\<close> when the box is closed: every line appended up to the bottom
  border.\<close>

definition box_lines :: "(json \<Rightarrow> pystr) \<Rightarrow> pystr \<Rightarrow> site_result \<Rightarrow> site_result list \<Rightarrow> py_error + pystr list" where
  "box_lines py_str date_str my_site competitors =
     and_then (action_items py_str (recommendations my_site)) (\<lambda>todo.
       Inr (header_lines py_str date_str my_site
            @ map (comparison_line (score my_site)) competitors
            @ items_heading
            @ todo
            @ [blank_row, rule_line 0x255a 0x255d]))"

text \<open>The summary table under the box.\<close>

definition table_row :: "(json \<Rightarrow> pystr) \<Rightarrow> 'a site_result_scheme \<Rightarrow> pystr" where
  "table_row py_str s =
     ljust 20 (take 18 (label s)) @ lit '' '' @ ljust 8 (show_int (score s)) @ lit '' ''
       @ ljust 8 (fmt py_str (JNum (PyFloat (lcp s)))) @ lit '' ''
       @ ljust 8 (fmt py_str (JNum (cls s)))"

definition table_lines :: "(json \<Rightarrow> pystr) \<Rightarrow> site_result \<Rightarrow> site_result list \<Rightarrow> pystr list" where
  "table_lines py_str my_site competitors =
     [[],
      [0x1f4c8] @ lit '' METR'' @ [0x130] @ lit ''K DETAYLARI:'',
      replicate 40 0x2500,
      ljust 20 (lit ''Site'') @ lit '' '' @ ljust 8 (lit ''Puan'') @ lit '' ''
        @ ljust 8 (lit ''LCP'') @ lit '' '' @ ljust 8 (lit ''CLS''),
      replicate 40 0x2500,
      table_row py_str my_site]
     @ map (table_row py_str) competitors
     @ [replicate 40 0x2500,
        [],
        lit ''Bu rapor SEO-Pulse taraf'' @ [0x131] @ lit ''ndan otomatik olu'' @ [0x15f]
          @ lit ''turulmu'' @ [0x15f] @ lit ''tur.'']"

text \<open>\<open>"\n".join(report)\<close>\<close>

fun join_lines :: "pystr list \<Rightarrow> pystr" where
  "join_lines [] = []"
| "join_lines [l] = l"
| "join_lines (l # ls) = l @ 10 # join_lines ls"

definition generate_report :: "(json \<Rightarrow> pystr) \<Rightarrow> pystr \<Rightarrow> site_result \<Rightarrow> site_result list \<Rightarrow> py_error + pystr" where
  "generate_report py_str date_str my_site competitors =
     and_then (box_lines py_str date_str my_site competitors) (\<lambda>box.
       Inr (join_lines (box @ table_lines py_str my_site competitors)))"

text \<open>The record of an analysis that found nothing to read.\<close>

definition no_metrics :: metrics where
  "no_metrics = \<lparr>score = 0, lcp = 0, cls = PyInt 0, recommendations = []\<rparr>"

subsection \<open>Example responses\<close>

definition body_half :: json where
  "body_half = JObj [(lit ''lighthouseResult'',
       JObj [(lit ''categories'',
         JObj [(lit ''performance'', JObj [(lit ''score'', JNum (PyFloat (1 / 2)))])])])]"

definition body_999 :: json where
  "body_999 = JObj [(lit ''lighthouseResult'',
       JObj [(lit ''categories'',
         JObj [(lit ''performance'', JObj [(lit ''score'', JNum (PyFloat (999 / 1000)))])])])]"

definition body_73 :: json where
  "body_73 = JObj [(lit ''lighthouseResult'',
       JObj [(lit ''categories'',
         JObj [(lit ''performance'', JObj [(lit ''score'', JNum (PyFloat (73 / 100)))])])])]"

definition body_null :: json where
  "body_null = JObj [(lit ''lighthouseResult'',
       JObj [(lit ''categories'',
         JObj [(lit ''performance'', JObj [(lit ''score'', JNull)])])])]"

subsection \<open>Example site results\<close>

definition site_ours :: site_result where
  "site_ours = \<lparr>score = 90, lcp = 5 / 2, cls = PyFloat (1 / 10), recommendations = [],
                 label = lit ''Benim Sitem'', url = lit ''https://example.com''\<rparr>"

definition site_slow :: site_result where
  "site_slow = \<lparr>score = 70, lcp = 4, cls = PyInt 0, recommendations = [],
                 label = lit ''Rakip A'', url = lit ''https://a.example''\<rparr>"

definition site_fast :: site_result where
  "site_fast = \<lparr>score = 95, lcp = 1, cls = PyInt 0, recommendations = [],
                 label = lit ''Rakip B'', url = lit ''https://b.example''\<rparr>"

definition site_long_url :: site_result where
  "site_long_url = \<lparr>score = 90, lcp = 5 / 2, cls = PyFloat (1 / 10), recommendations = [],
                     label = lit ''Benim Sitem'',
                     url = lit ''https://example.com/'' @ replicate 40 97\<rparr>"



section \<open>Properties of the extractor\<close>

lemma and_then_Inr [simp]: "and_then (Inr x) f = f x"
  by (simp add: and_then_def)

lemma and_then_Inl [simp]: "and_then (Inl e) f = Inl e"
  by (simp add: and_then_def)

lemma and_then_eq_Inr: "and_then m f = Inr y \<longleftrightarrow> (\<exists>x. m = Inr x \<and> f x = Inr y)"
  by (cases m) auto

lemma score_skipped_False: "score_skipped v = Inr False \<longleftrightarrow> (\<exists>s. num_of v = Some s \<and> s < 9 / 10)"
  by (cases v) (auto split: option.splits)

lemma score_skipped_True: "score_skipped v = Inr True \<longleftrightarrow> (v = JNull \<or> (\<exists>s. num_of v = Some s \<and> 9 / 10 \<le> s))"
  by (cases v) (auto split: option.splits)

lemma and_thenE:
  assumes "and_then m f = Inr y"
  obtains x where "m = Inr x" and "f x = Inr y"
  using assms by (cases m) auto

lemma as_num_Inr: "as_num v = Inr r \<longleftrightarrow> num_of v = Some r"
  by (simp add: as_num_def split: option.splits)

lemma str_add_Inr: "str_add v t = Inr r \<longleftrightarrow> (\<exists>s. v = JStr s \<and> r = s @ t)"
  by (cases v) auto

lemma build_opportunityD:
  assumes "build_opportunity aid a details sc = Inr opp"
  shows "\<exists>ms bytes b m t base dv.
        dict_get details (lit ''overallSavingsMs'') (JNum (PyInt 0)) = Inr ms \<and>
        dict_get details (lit ''overallSavingsBytes'') (JNum (PyInt 0)) = Inr bytes \<and>
        num_of bytes = Some b \<and> num_of ms = Some m \<and>
        tr_title aid a = Inr t \<and> tr_action aid a = Inr (JStr base) \<and>
        dict_get a (lit ''displayValue'') (JStr []) = Inr dv \<and>
        opp = \<lparr> title = t, action = base @ savings_text m b, display_value = dv,
             savings_ms = ms, savings_bytes = bytes,
             audit_id = aid, savings = m + b / 1000, opp_score = sc \<rparr>"
  using assms unfolding build_opportunity_def
  by (elim and_thenE) (auto simp: as_num_Inr str_add_Inr)

lemma audit_entry_unfold:
  assumes "dict_get a (lit ''details'') (JObj []) = Inr details"
      and "dict_get details (lit ''type'') (JStr []) = Inr ty"
      and "dict_get a (lit ''score'') JNull = Inr sc"
      and "score_skipped sc = Inr skip"
  shows "audit_entry aid a =
           (if skip then Inr None
            else if ty = JStr (lit ''opportunity'') \<or> has_key details (lit ''overallSavingsMs'')
                     \<or> has_key details (lit ''overallSavingsBytes'')
                 then and_then (build_opportunity aid a details sc) (\<lambda>opp. Inr (Some opp))
                 else Inr None)"
  using assms by (simp add: audit_entry_def)

lemma audit_entryD:
  assumes "audit_entry aid a = Inr r"
  obtains details ty sc skip where
    "dict_get a (lit ''details'') (JObj []) = Inr details"
    "dict_get details (lit ''type'') (JStr []) = Inr ty"
    "dict_get a (lit ''score'') JNull = Inr sc"
    "score_skipped sc = Inr skip"
  using assms unfolding audit_entry_def by (elim and_thenE) blast

lemma audit_entry_SomeD:
  assumes "audit_entry aid a = Inr (Some opp)"
  obtains details ty sc where
    "dict_get a (lit ''details'') (JObj []) = Inr details"
    "dict_get details (lit ''type'') (JStr []) = Inr ty"
    "dict_get a (lit ''score'') JNull = Inr sc"
    "score_skipped sc = Inr False"
    "ty = JStr (lit ''opportunity'') \<or> has_key details (lit ''overallSavingsMs'')
       \<or> has_key details (lit ''overallSavingsBytes'')"
    "build_opportunity aid a details sc = Inr opp"
proof -
  from assms obtain details ty sc skip where g:
    "dict_get a (lit ''details'') (JObj []) = Inr details"
    "dict_get details (lit ''type'') (JStr []) = Inr ty"
    "dict_get a (lit ''score'') JNull = Inr sc"
    "score_skipped sc = Inr skip"
    by (rule audit_entryD)
  from assms audit_entry_unfold [OF g, of aid] have
    "\<not> skip" and "ty = JStr (lit ''opportunity'') \<or> has_key details (lit ''overallSavingsMs'')
       \<or> has_key details (lit ''overallSavingsBytes'')"
    and "and_then (build_opportunity aid a details sc) (\<lambda>opp. Inr (Some opp)) = Inr (Some opp)"
    by (auto split: if_splits)
  then show thesis using g that by (auto elim!: and_thenE)
qed


lemma collect_append:
  "collect (xs @ ys) =
     and_then (collect xs) (\<lambda>a. and_then (collect ys) (\<lambda>b. Inr (a @ b)))"
proof (induction xs)
  case Nil
  show ?case by (cases "collect ys") simp_all
next
  case (Cons x xs)
  obtain aid a where x: "x = (aid, a)" by (cases x)
  show ?case
  proof (cases "audit_entry aid a")
    case (Inl e)
    then show ?thesis by (simp add: x)
  next
    case (Inr r)
    then show ?thesis
      by (cases "collect xs"; cases "collect ys"; cases r) (simp_all add: x Cons.IH)
  qed
qed

lemma collect_skip:
  assumes "audit_entry aid a = Inr None"
  shows "collect (xs @ (aid, a) # ys) = collect (xs @ ys)"
  by (cases "collect xs"; cases "collect ys") (simp_all add: collect_append [of xs] assms)

lemma collect_Cons_Inr:
  assumes "collect ((aid, a) # rest) = Inr opps"
  obtains r os where "audit_entry aid a = Inr r" and "collect rest = Inr os"
    and "opps = (case r of None \<Rightarrow> os | Some opp \<Rightarrow> opp # os)"
  using assms by (auto elim!: and_thenE)



lemma rank_key_strip [simp]: "rank_key (strip opp) = rank_key opp"
  by (simp add: rank_key_def strip_def)

lemma extract_Inr:
  assumes "extract_smart_recommendations (JObj kvs) = Inr recs"
  obtains opps where "collect kvs = Inr opps" and "recs = map strip (sort_desc opps)"
  using assms by (auto simp: extract_smart_recommendations_def elim!: and_thenE)


lemma lit_eq_iff: "lit s = lit t \<longleftrightarrow> s = t"
  by (simp add: lit_def inj_map_eq_map inj_on_def)

lemma untranslated:
  "map_of AUDIT_TRANSLATIONS (lit [CHR ''a'', c]) = None"
  by (simp add: AUDIT_TRANSLATIONS_def lit_eq_iff)

lemmas entry_eval = audit_entry_def build_opportunity_def tr_title_def tr_action_def
  savings_text_def lit_eq_iff untranslated as_num_def py_int_def show_int_def

lemmas extract_eval = extract_smart_recommendations_def sort_desc_def strip_def entry_eval

subsection \<open>The score filter\<close>

text \<open>
  Claim C3. Let \<open>score\<close> be what \<open>audit_data.get("score")\<close> reads (\<open>None\<close> when the
  key is absent). If it is \<open>None\<close>, or a number of 0.9 or more, the loop body appends
  nothing for the entry, and an extractor call that returns gives the same list with
  the entry as without it, whatever the other fields of the entry are. If it is a
  number below 0.9, the test \<open>score is None or score >= 0.9\<close> is false and the entry
  goes on to the inclusion test.
\<close>

theorem score_filter:
  assumes "dict_get audit_data (lit ''score'') JNull = Inr sc"
  shows "(sc = JNull \<or> (\<exists>s. num_of sc = Some s \<and> 9 / 10 \<le> s) \<longrightarrow>
            audit_entry aid audit_data \<noteq> Inr (Some opp) \<and>
            (extract_smart_recommendations (JObj (xs @ (aid, audit_data) # ys)) = Inr recs \<longrightarrow>
             extract_smart_recommendations (JObj (xs @ ys)) = Inr recs))
         \<and> ((\<exists>s. num_of sc = Some s \<and> s < 9 / 10) \<longrightarrow> score_skipped sc = Inr False)"
proof (intro conjI impI)
  assume high: "sc = JNull \<or> (\<exists>s. num_of sc = Some s \<and> 9 / 10 \<le> s)"
  then have skip: "score_skipped sc = Inr True"
    by (simp add: score_skipped_True)
  show no: "audit_entry aid audit_data \<noteq> Inr (Some opp)"
  proof
    assume "audit_entry aid audit_data = Inr (Some opp)"
    then obtain sc1 where "dict_get audit_data (lit ''score'') JNull = Inr sc1"
      and "score_skipped sc1 = Inr False"
      by (rule audit_entry_SomeD)
    with assms skip show False by simp
  qed
  assume full: "extract_smart_recommendations (JObj (xs @ (aid, audit_data) # ys)) = Inr recs"
  then obtain opps where c: "collect (xs @ (aid, audit_data) # ys) = Inr opps"
    and recs: "recs = map strip (sort_desc opps)"
    by (rule extract_Inr)
  from c obtain r where r: "audit_entry aid audit_data = Inr r"
    by (cases "audit_entry aid audit_data"; cases "collect xs")
       (simp_all add: collect_append [of xs])
  obtain details ty sc2 skip' where g:
    "dict_get audit_data (lit ''details'') (JObj []) = Inr details"
    "dict_get details (lit ''type'') (JStr []) = Inr ty"
    "dict_get audit_data (lit ''score'') JNull = Inr sc2"
    "score_skipped sc2 = Inr skip'"
    using r by (rule audit_entryD)
  from g(3) assms have "sc2 = sc" by simp
  with g(4) skip have "skip'" by simp
  with audit_entry_unfold [OF g, of aid] have "audit_entry aid audit_data = Inr None"
    by simp
  then have "collect (xs @ (aid, audit_data) # ys) = collect (xs @ ys)"
    by (rule collect_skip)
  with c recs show "extract_smart_recommendations (JObj (xs @ ys)) = Inr recs"
    by (simp add: extract_smart_recommendations_def)
next
  assume "\<exists>s. num_of sc = Some s \<and> s < 9 / 10"
  then show "score_skipped sc = Inr False"
    by (simp add: score_skipped_False)
qed

lemmas ex_defs = ex_ms_def ex_bytes_def ex_zero_def ex_good_def ex_null_def ex_tie_def ex_table_def
  rec_ms_def rec_tie_def rec_bytes_def rec_zero_def

theorem score_filter_witness:
  "dict_get ex_good (lit ''score'') JNull = Inr (JNum (PyFloat (9 / 10)))
   \<and> extract_smart_recommendations (JObj [(lit ''a1'', ex_ms), (lit ''a4'', ex_good)]) = Inr [rec_ms]
   \<and> extract_smart_recommendations (JObj [(lit ''a1'', ex_ms)]) = Inr [rec_ms]
   \<and> dict_get ex_bytes (lit ''score'') JNull = Inr (JNum (PyFloat (89999 / 100000)))
   \<and> score_skipped (JNum (PyFloat (89999 / 100000))) = Inr False"
proof -
  have g: "dict_get ex_good (lit ''score'') JNull = Inr (JNum (PyFloat (9 / 10)))"
    by (simp add: ex_defs lit_eq_iff)
  have full: "extract_smart_recommendations (JObj ([(lit ''a1'', ex_ms)] @ (lit ''a4'', ex_good) # []))
                = Inr [rec_ms]"
    by (simp add: ex_defs extract_eval) (simp add: lit_def)
  have hi: "JNum (PyFloat (9 / 10)) = JNull \<or> (\<exists>s. num_of (JNum (PyFloat (9 / 10))) = Some s \<and> 9 / 10 \<le> s)"
    by (intro disjI2 exI [of _ "9 / 10"]) simp
  have g2: "dict_get ex_bytes (lit ''score'') JNull = Inr (JNum (PyFloat (89999 / 100000)))"
    by (simp add: ex_defs lit_eq_iff)
  have lo: "\<exists>s. num_of (JNum (PyFloat (89999 / 100000))) = Some s \<and> s < 9 / 10"
    by (intro exI [of _ "89999 / 100000"]) simp
  from score_filter [OF g, of "lit ''a4''" undefined "[(lit ''a1'', ex_ms)]" "[]" "[rec_ms]"] hi full
  have "extract_smart_recommendations (JObj [(lit ''a1'', ex_ms)]) = Inr [rec_ms]"
    by simp
  moreover from score_filter [OF g2, of "lit ''a2''" undefined "[]" "[]" "[]"] lo
  have "score_skipped (JNum (PyFloat (89999 / 100000))) = Inr False"
    by blast
  ultimately show ?thesis using g g2 full by simp
qed

subsection \<open>Ranking\<close>



lemma collect_split:
  assumes "collect (xs @ (aid, a) # ys) = Inr opps"
  obtains r o1 o2 where "audit_entry aid a = Inr r" and "collect xs = Inr o1"
    and "collect ys = Inr o2"
    and "opps = o1 @ (case r of None \<Rightarrow> [] | Some opp \<Rightarrow> [opp]) @ o2"
proof -
  from assms obtain o1 rest where o1: "collect xs = Inr o1"
    and rest: "collect ((aid, a) # ys) = Inr rest" and opps: "opps = o1 @ rest"
    unfolding collect_append [of xs] by (auto elim!: and_thenE)
  from rest obtain r o2 where "audit_entry aid a = Inr r" and "collect ys = Inr o2"
    and "rest = (case r of None \<Rightarrow> o2 | Some opp \<Rightarrow> opp # o2)"
    by (rule collect_Cons_Inr)
  with o1 opps that [of r o1 o2] show thesis
    by (cases r) simp_all
qed

subsection \<open>The inclusion test\<close>

text \<open>
  Claim C5. For an entry whose score passes the filter and whose loop body returns,
  an opportunity is appended if and only if \<open>details.type\<close> is \<open>"opportunity"\<close> or
  \<open>details\<close> has the key \<open>overallSavingsMs\<close> or the key \<open>overallSavingsBytes\<close>. The
  entry contributes that one opportunity, once, between the contributions of the
  items before and after it. If the type is \<open>"opportunity"\<close> and both savings are 0,
  the entry is appended with ranking key 0 and its action text has no suffix.
\<close>

theorem inclusion_rule:
  assumes "dict_get audit_data (lit ''details'') (JObj []) = Inr details"
      and "dict_get details (lit ''type'') (JStr []) = Inr ty"
      and "dict_get audit_data (lit ''score'') JNull = Inr sc"
      and "score_skipped sc = Inr False"
      and "audit_entry aid audit_data = Inr r"
  shows "(r \<noteq> None \<longleftrightarrow>
            ty = JStr (lit ''opportunity'') \<or> has_key details (lit ''overallSavingsMs'')
              \<or> has_key details (lit ''overallSavingsBytes''))
         \<and> (collect (xs @ (aid, audit_data) # ys) = Inr opps \<longrightarrow>
              (\<exists>o1 o2. collect xs = Inr o1 \<and> collect ys = Inr o2
                 \<and> opps = o1 @ (case r of None \<Rightarrow> [] | Some opp \<Rightarrow> [opp]) @ o2))
         \<and> (ty = JStr (lit ''opportunity'')
              \<and> dict_get details (lit ''overallSavingsMs'') (JNum (PyInt 0)) = Inr ms
              \<and> dict_get details (lit ''overallSavingsBytes'') (JNum (PyInt 0)) = Inr bytes
              \<and> num_of ms = Some 0 \<and> num_of bytes = Some 0 \<longrightarrow>
              (\<exists>opp base. r = Some opp \<and> savings opp = 0 \<and> rank_key opp = 0
                 \<and> tr_action aid audit_data = Inr (JStr base) \<and> action opp = base))"
proof (intro conjI impI)
  note unf = audit_entry_unfold [OF assms(1-4), of aid]
  show "r \<noteq> None \<longleftrightarrow>
            ty = JStr (lit ''opportunity'') \<or> has_key details (lit ''overallSavingsMs'')
              \<or> has_key details (lit ''overallSavingsBytes'')"
    using assms(5) unfolding unf by (auto split: if_splits elim!: and_thenE)
  {
    assume "collect (xs @ (aid, audit_data) # ys) = Inr opps"
    then obtain r' o1 o2 where "audit_entry aid audit_data = Inr r'" and "collect xs = Inr o1"
      and "collect ys = Inr o2"
      and "opps = o1 @ (case r' of None \<Rightarrow> [] | Some opp \<Rightarrow> [opp]) @ o2"
      by (rule collect_split)
    with assms(5) show "\<exists>o1 o2. collect xs = Inr o1 \<and> collect ys = Inr o2
                 \<and> opps = o1 @ (case r of None \<Rightarrow> [] | Some opp \<Rightarrow> [opp]) @ o2"
      by simp
  }
  {
    assume z: "ty = JStr (lit ''opportunity'')
              \<and> dict_get details (lit ''overallSavingsMs'') (JNum (PyInt 0)) = Inr ms
              \<and> dict_get details (lit ''overallSavingsBytes'') (JNum (PyInt 0)) = Inr bytes
              \<and> num_of ms = Some 0 \<and> num_of bytes = Some 0"
    with assms(5) obtain opp where r: "r = Some opp"
      and b: "build_opportunity aid audit_data details sc = Inr opp"
      unfolding unf by (auto elim!: and_thenE)
    from build_opportunityD [OF b] z obtain base where
      "tr_action aid audit_data = Inr (JStr base)" and "action opp = base @ savings_text 0 0"
      and "savings opp = 0" and "savings_ms opp = ms" and "savings_bytes opp = bytes"
      by auto
    with r z show "\<exists>opp base. r = Some opp \<and> savings opp = 0 \<and> rank_key opp = 0
                 \<and> tr_action aid audit_data = Inr (JStr base) \<and> action opp = base"
      by (simp add: savings_text_def rank_key_def)
  }
qed

theorem inclusion_rule_witness:
  "audit_entry (lit ''a3'') ex_zero = Inr (Some (recommendation.extend rec_zero
       \<lparr>audit_id = lit ''a3'', savings = 0, opp_score = JNum (PyInt 0)\<rparr>))
   \<and> collect [(lit ''a7'', ex_table), (lit ''a3'', ex_zero), (lit ''a7'', ex_table)]
       = Inr [recommendation.extend rec_zero
                \<lparr>audit_id = lit ''a3'', savings = 0, opp_score = JNum (PyInt 0)\<rparr>]
   \<and> audit_entry (lit ''a7'') ex_table = Inr None
   \<and> action rec_zero = lit ''Do three''"
proof -
  let ?details = "JObj [(lit ''type'', JStr (lit ''opportunity'')),
                        (lit ''overallSavingsMs'', JNum (PyInt 0)),
                        (lit ''overallSavingsBytes'', JNum (PyInt 0))]"
  let ?opp = "recommendation.extend rec_zero
                \<lparr>audit_id = lit ''a3'', savings = 0, opp_score = JNum (PyInt 0)\<rparr>"
  have d: "dict_get ex_zero (lit ''details'') (JObj []) = Inr ?details"
    by (simp add: ex_defs lit_eq_iff)
  have t: "dict_get ?details (lit ''type'') (JStr []) = Inr (JStr (lit ''opportunity''))"
    by (simp add: lit_eq_iff)
  have sc: "dict_get ex_zero (lit ''score'') JNull = Inr (JNum (PyInt 0))"
    by (simp add: ex_defs lit_eq_iff)
  have sk: "score_skipped (JNum (PyInt 0)) = Inr False"
    by simp
  have e: "audit_entry (lit ''a3'') ex_zero = Inr (Some ?opp)"
    by (simp add: ex_defs entry_eval recommendation.defs opportunity.defs) (simp add: lit_def)
  have e7: "audit_entry (lit ''a7'') ex_table = Inr None"
    by (simp add: ex_defs entry_eval)
  have c: "collect ([(lit ''a7'', ex_table)] @ (lit ''a3'', ex_zero) # [(lit ''a7'', ex_table)])
             = Inr [?opp]"
    by (simp add: e e7)
  have z: "JStr (lit ''opportunity'') = JStr (lit ''opportunity'')
            \<and> dict_get ?details (lit ''overallSavingsMs'') (JNum (PyInt 0)) = Inr (JNum (PyInt 0))
            \<and> dict_get ?details (lit ''overallSavingsBytes'') (JNum (PyInt 0)) = Inr (JNum (PyInt 0))
            \<and> num_of (JNum (PyInt 0)) = Some 0 \<and> num_of (JNum (PyInt 0)) = Some 0"
    by (simp add: lit_eq_iff)
  from inclusion_rule [OF d t sc sk e, of "[(lit ''a7'', ex_table)]" "[(lit ''a7'', ex_table)]"
      "[?opp]" "JNum (PyInt 0)" "JNum (PyInt 0)"] c z
  have "\<exists>opp base. Some ?opp = Some opp \<and> savings opp = 0 \<and> rank_key opp = 0
          \<and> tr_action (lit ''a3'') ex_zero = Inr (JStr base) \<and> action opp = base"
    by blast
  moreover have "tr_action (lit ''a3'') ex_zero = Inr (JStr (lit ''Do three''))"
    by (simp add: ex_defs entry_eval) (simp add: lit_def)
  ultimately have "action ?opp = lit ''Do three''"
    by auto
  then have "action rec_zero = lit ''Do three''"
    by (simp add: recommendation.defs opportunity.defs)
  with e e7 c show ?thesis by simp
qed

subsection \<open>The savings suffix\<close>

text \<open>
  Claim C6. For an appended entry with millisecond savings \<open>m\<close> and byte savings
  \<open>b\<close>, the action text is the translated or raw action followed by
  \<open>" (~Nms tasarruf)"\<close> with \<open>N = int(m)\<close> when \<open>m > 0\<close>, else by \<open>" (~NKB tasarruf)"\<close>
  with \<open>N = int(b / 1024)\<close> when \<open>b > 0\<close>, else by nothing.
\<close>

theorem savings_suffix:
  assumes "audit_entry aid audit_data = Inr (Some opp)"
  shows "\<exists>details m b base.
           dict_get audit_data (lit ''details'') (JObj []) = Inr details
           \<and> dict_get details (lit ''overallSavingsMs'') (JNum (PyInt 0)) = Inr (savings_ms opp)
           \<and> dict_get details (lit ''overallSavingsBytes'') (JNum (PyInt 0)) = Inr (savings_bytes opp)
           \<and> num_of (savings_ms opp) = Some m \<and> num_of (savings_bytes opp) = Some b
           \<and> tr_action aid audit_data = Inr (JStr base)
           \<and> action opp = base @
                (if 0 < m then lit '' (~'' @ show_int (py_int m) @ lit ''ms tasarruf)''
                 else if 0 < b then lit '' (~'' @ show_int (py_int (b / 1024)) @ lit ''KB tasarruf)''
                 else [])"
proof -
  from assms obtain details sc where d: "dict_get audit_data (lit ''details'') (JObj []) = Inr details"
    and b: "build_opportunity aid audit_data details sc = Inr opp"
    by (rule audit_entry_SomeD)
  from build_opportunityD [OF b] d show ?thesis
    by (auto simp: savings_text_def)
qed

theorem savings_suffix_witness:
  "audit_entry (lit ''a1'') ex_ms = Inr (Some (recommendation.extend rec_ms
       \<lparr>audit_id = lit ''a1'', savings = 1500, opp_score = JNum (PyFloat (1 / 2))\<rparr>))
   \<and> action rec_ms = lit ''Do one'' @ lit '' (~1500ms tasarruf)''
   \<and> audit_entry (lit ''a2'') ex_bytes = Inr (Some (recommendation.extend rec_bytes
       \<lparr>audit_id = lit ''a2'', savings = 256 / 125,
          opp_score = JNum (PyFloat (89999 / 100000))\<rparr>))
   \<and> action rec_bytes = lit ''Do two'' @ lit '' (~2KB tasarruf)''"
proof -
  let ?o1 = "recommendation.extend rec_ms
       \<lparr>audit_id = lit ''a1'', savings = 1500, opp_score = JNum (PyFloat (1 / 2))\<rparr>"
  let ?o2 = "recommendation.extend rec_bytes
       \<lparr>audit_id = lit ''a2'', savings = 256 / 125,
          opp_score = JNum (PyFloat (89999 / 100000))\<rparr>"
  have h1: "audit_entry (lit ''a1'') ex_ms = Inr (Some ?o1)"
    by (simp add: ex_defs entry_eval recommendation.defs opportunity.defs) (simp add: lit_def)
  have h2: "audit_entry (lit ''a2'') ex_bytes = Inr (Some ?o2)"
    by (simp add: ex_defs entry_eval recommendation.defs opportunity.defs) (simp add: lit_def)
  have b1: "tr_action (lit ''a1'') ex_ms = Inr (JStr (lit ''Do one''))"
    by (simp add: ex_defs entry_eval) (simp add: lit_def)
  have b2: "tr_action (lit ''a2'') ex_bytes = Inr (JStr (lit ''Do two''))"
    by (simp add: ex_defs entry_eval) (simp add: lit_def)
  have n1: "num_of (savings_ms ?o1) = Some 1500" "num_of (savings_bytes ?o1) = Some 0"
    by (simp_all add: ex_defs recommendation.defs opportunity.defs)
  have n2: "num_of (savings_ms ?o2) = Some 0" "num_of (savings_bytes ?o2) = Some 2048"
    by (simp_all add: ex_defs recommendation.defs opportunity.defs)
  have s1: "lit '' (~'' @ show_int (py_int 1500) @ lit ''ms tasarruf)'' = lit '' (~1500ms tasarruf)''"
    by (simp add: py_int_def show_int_def lit_def)
  have s2: "lit '' (~'' @ show_int (py_int (2048 / 1024)) @ lit ''KB tasarruf)'' = lit '' (~2KB tasarruf)''"
    by (simp add: py_int_def show_int_def lit_def)
  from savings_suffix [OF h1] b1 n1 s1
  have "action ?o1 = lit ''Do one'' @ lit '' (~1500ms tasarruf)''"
    by auto
  moreover from savings_suffix [OF h2] b2 n2 s2
  have "action ?o2 = lit ''Do two'' @ lit '' (~2KB tasarruf)''"
    by auto
  ultimately show ?thesis
    using h1 h2 by (simp add: recommendation.defs opportunity.defs)
qed

section \<open>Properties of the analyzer\<close>

lemma py_round_0 [simp]: "py_round 0 n = 0"
  by (simp add: py_round_def round_half_even_def)

lemma scaled_score_0 [simp]: "scaled_score p (JNum (PyInt 0)) = Inr 0"
  by (simp add: scaled_score_def)

lemma lcp_seconds_0 [simp]: "lcp_seconds (JNum (PyInt 0)) = Inr 0"
  by (simp add: lcp_seconds_def as_num_def)

lemma extract_empty [simp]: "extract_smart_recommendations (JObj []) = Inr []"
  by (simp add: extract_smart_recommendations_def sort_desc_def)

lemma read_metrics_no_result:
  assumes "map_of kvs (lit ''lighthouseResult'') = None"
  shows "read_metrics p (JObj kvs) = Inr no_metrics"
  using assms by (simp add: read_metrics_def no_metrics_def)

lemma read_metrics_empty_result:
  assumes "map_of kvs (lit ''lighthouseResult'') = Some (JObj lh)"
      and "map_of lh (lit ''categories'') = None"
      and "map_of lh (lit ''audits'') = None"
  shows "read_metrics p (JObj kvs) = Inr no_metrics"
  using assms by (simp add: read_metrics_def no_metrics_def)

lemma read_metrics_no_audits:
  assumes "map_of kvs (lit ''lighthouseResult'') = Some (JObj lh)"
      and "map_of lh (lit ''audits'') = None"
      and "read_metrics p (JObj kvs) = Inr m"
  shows "lcp m = 0 \<and> cls m = PyInt 0 \<and> recommendations m = []"
  using assms unfolding read_metrics_def
  by (auto elim!: and_thenE)

lemma read_metrics_no_categories:
  assumes "map_of kvs (lit ''lighthouseResult'') = Some (JObj lh)"
      and "map_of lh (lit ''categories'') = None"
      and "read_metrics p (JObj kvs) = Inr m"
  shows "score m = 0"
  using assms unfolding read_metrics_def
  by (auto elim!: and_thenE)

lemma analyze_Response:
  assumes "\<not> raise_for_status st"
  shows "analyze p (Response st (Some data)) =
           (case read_metrics p data of
              Inr m \<Rightarrow> Inr (AnalysisDone, Some m)
            | Inl KeyError \<Rightarrow> Inr (MissingFieldLogged, None)
            | Inl e \<Rightarrow> Inr (UnexpectedLogged, None))"
  using assms by (simp add: analyze_def try_block_def split: sum.splits py_error.splits)

lemma analyze_cases:
  "(\<exists>m. try_block p r = Inr m \<and> analyze p r = Inr (AnalysisDone, Some m))
   \<or> (\<exists>e l. try_block p r = Inl e \<and> analyze p r = Inr (l, None))"
  by (simp add: analyze_def split: sum.splits raised.splits py_error.splits)

lemma try_block_Inr:
  "try_block p r = Inr m \<longleftrightarrow>
     (\<exists>st data. r = Response st (Some data) \<and> \<not> raise_for_status st \<and> read_metrics p data = Inr m)"
  by (auto simp: try_block_def split: reply.splits request_fault.splits option.splits sum.splits if_splits)

lemma scaled_score_float:
  "0 \<le> x \<Longrightarrow> scaled_score p (JNum (PyFloat x)) = Inr \<lfloor>x * 100\<rfloor>"
  by (auto simp: scaled_score_def py_int_def)

lemma read_metrics_score_only:
  "read_metrics p (JObj [(lit ''lighthouseResult'',
       JObj [(lit ''categories'', JObj [(lit ''performance'', JObj [(lit ''score'', v)])])])])
   = and_then (scaled_score p v) (\<lambda>s. Inr \<lparr>score = s, lcp = 0, cls = PyInt 0, recommendations = []\<rparr>)"
  by (simp add: read_metrics_def lit_eq_iff)

subsection \<open>The score\<close>

text \<open>
  Claim C1. The category score is multiplied by 100 and passed to \<open>int\<close>, which
  truncates: a category score of 0.999 gives 99, where rounding to the nearest integer
  gives 100. A score of 0.73 gives 73, and a null or missing score gives 0.
\<close>

theorem score_is_truncated:
  "analyze p (Response 200 (Some body_999))
     = Inr (AnalysisDone, Some \<lparr>score = 99, lcp = 0, cls = PyInt 0, recommendations = []\<rparr>)
   \<and> rounded_percent (999 / 1000) = 100
   \<and> analyze p (Response 200 (Some body_73))
     = Inr (AnalysisDone, Some \<lparr>score = 73, lcp = 0, cls = PyInt 0, recommendations = []\<rparr>)
   \<and> analyze p (Response 200 (Some body_null)) = Inr (AnalysisDone, Some no_metrics)
   \<and> analyze p (Response 200 (Some (JObj []))) = Inr (AnalysisDone, Some no_metrics)"
proof -
  have ok: "\<not> raise_for_status 200"
    by (simp add: raise_for_status_def)
  have f1: "\<lfloor>999 / 10 :: rat\<rfloor> = 99"
    by (simp add: floor_eq_iff)
  have r: "rounded_percent (999 / 1000) = 100"
    by (simp add: rounded_percent_def round_half_even_def Let_def floor_eq_iff f1)
  show ?thesis
    by (simp add: analyze_Response [OF ok] body_999_def body_73_def body_null_def
        read_metrics_score_only scaled_score_float f1 r no_metrics_def
        read_metrics_no_result [unfolded no_metrics_def] scaled_score_def py_int_def)
qed

subsection \<open>Faults of the request\<close>

text \<open>
  Claim C7 as stated fails: a response outside 2xx whose status is not an error status
  for \<open>raise_for_status\<close>, such as 302 with a JSON object as body, is read like a
  success and a metrics record is returned.
\<close>

theorem redirect_counterexample:
  "\<not> (200 \<le> (302 :: nat) \<and> (302 :: nat) < 300)
   \<and> analyze (\<lambda>s. None) (Response 302 (Some (JObj []))) = Inr (AnalysisDone, Some no_metrics)"
proof -
  have ok: "\<not> raise_for_status 302"
    by (simp add: raise_for_status_def)
  show ?thesis
    by (simp add: analyze_Response [OF ok] read_metrics_no_result)
qed

text \<open>
  Claim C7, amended. No exception of the \<open>try\<close> block reaches the caller. The call
  returns \<open>None\<close> exactly when the request raises, the status is from 400 to 599, the
  body is not JSON, or reading the body raises; in every other case, whatever the
  status, it logs the result and returns the metrics record read from the body.
\<close>

theorem analyze_catches_all:
  "\<exists>l m. analyze p r = Inr (l, m)
     \<and> (m = None \<longleftrightarrow>
          (\<exists>f. r = Fails f)
          \<or> (\<exists>st body. r = Response st body
                \<and> (raise_for_status st \<or> body = None
                    \<or> (\<exists>data e. body = Some data \<and> read_metrics p data = Inl e))))
     \<and> (\<forall>x. m = Some x \<longrightarrow>
          l = AnalysisDone
          \<and> (\<exists>st data. r = Response st (Some data) \<and> \<not> raise_for_status st
                \<and> read_metrics p data = Inr x))"
proof -
  from analyze_cases [of p r] show ?thesis
  proof (elim disjE exE conjE)
    fix m
    assume t: "try_block p r = Inr m" and a: "analyze p r = Inr (AnalysisDone, Some m)"
    from t obtain st data where "r = Response st (Some data)" "\<not> raise_for_status st"
      "read_metrics p data = Inr m"
      by (auto simp: try_block_Inr)
    with a show ?thesis by auto
  next
    fix e l
    assume t: "try_block p r = Inl e" and a: "analyze p r = Inr (l, None)"
    have "(\<exists>f. r = Fails f)
          \<or> (\<exists>st body. r = Response st body
                \<and> (raise_for_status st \<or> body = None
                    \<or> (\<exists>data e. body = Some data \<and> read_metrics p data = Inl e)))"
    proof (cases r)
      case (Fails f)
      then show ?thesis by simp
    next
      case (Response st body)
      with t show ?thesis
        by (cases body; cases "raise_for_status st")
           (auto simp: try_block_def split: sum.splits)
    qed
    with a show ?thesis by simp
  qed
qed

theorem analyze_catches_all_witness:
  "analyze (\<lambda>s. None) (Response 200 (Some (JObj []))) = Inr (AnalysisDone, Some no_metrics)
   \<and> \<not> raise_for_status 200
   \<and> read_metrics (\<lambda>s. None) (JObj []) = Inr no_metrics
   \<and> analyze (\<lambda>s. None) (Fails TimedOut) = Inr (TimeoutLogged, None)
   \<and> analyze (\<lambda>s. None) (Response 200 (Some (JArr []))) = Inr (UnexpectedLogged, None)"
proof -
  have ok: "\<not> raise_for_status 200"
    by (simp add: raise_for_status_def)
  have a: "analyze (\<lambda>s. None) (Response 200 (Some (JObj []))) = Inr (AnalysisDone, Some no_metrics)"
    by (simp add: analyze_Response [OF ok] read_metrics_no_result)
  from analyze_catches_all [of "\<lambda>s. None" "Response 200 (Some (JObj []))"] a
  have "read_metrics (\<lambda>s. None) (JObj []) = Inr no_metrics"
    by auto
  moreover have "analyze (\<lambda>s. None) (Fails TimedOut) = Inr (TimeoutLogged, None)"
    by (simp add: analyze_def try_block_def)
  moreover have "analyze (\<lambda>s. None) (Response 200 (Some (JArr []))) = Inr (UnexpectedLogged, None)"
    by (simp add: analyze_Response [OF ok] read_metrics_def)
  ultimately show ?thesis using a ok by simp
qed

subsection \<open>Missing fields\<close>

text \<open>
  Claim C10 as stated fails: a 2xx body whose \<open>lighthouseResult\<close> has \<open>categories\<close> but
  no \<open>audits\<close> gives the score of its category, here 50, not 0.
\<close>

theorem missing_audits_counterexample:
  "dict_get body_half (lit ''lighthouseResult'') (JObj [])
     = Inr (JObj [(lit ''categories'',
               JObj [(lit ''performance'', JObj [(lit ''score'', JNum (PyFloat (1 / 2)))])])])
   \<and> \<not> has_key (JObj [(lit ''categories'',
               JObj [(lit ''performance'', JObj [(lit ''score'', JNum (PyFloat (1 / 2)))])])])
          (lit ''audits'')
   \<and> analyze (\<lambda>s. None) (Response 200 (Some body_half))
       = Inr (AnalysisDone, Some \<lparr>score = 50, lcp = 0, cls = PyInt 0, recommendations = []\<rparr>)"
proof -
  have ok: "\<not> raise_for_status 200"
    by (simp add: raise_for_status_def)
  show ?thesis
    by (simp add: analyze_Response [OF ok] body_half_def read_metrics_score_only
        scaled_score_def py_int_def lit_eq_iff)
qed

text \<open>
  Claim C10, amended. For a 2xx response whose body is a JSON object: without
  \<open>lighthouseResult\<close>, or with a \<open>lighthouseResult\<close> object that has neither
  \<open>categories\<close> nor \<open>audits\<close>, the call takes no error branch and returns score 0,
  lcp 0.0, cls 0 and no recommendations. When only \<open>audits\<close> is missing, a returned
  record has lcp 0.0, cls 0 and no recommendations; when only \<open>categories\<close> is
  missing, a returned record has score 0.
\<close>

theorem missing_fields_default:
  assumes "200 \<le> st" and "st < 300"
  shows "(map_of kvs (lit ''lighthouseResult'') = None \<longrightarrow>
            analyze p (Response st (Some (JObj kvs))) = Inr (AnalysisDone, Some no_metrics))
       \<and> (map_of kvs (lit ''lighthouseResult'') = Some (JObj lh)
            \<and> map_of lh (lit ''categories'') = None \<and> map_of lh (lit ''audits'') = None \<longrightarrow>
            analyze p (Response st (Some (JObj kvs))) = Inr (AnalysisDone, Some no_metrics))
       \<and> (map_of kvs (lit ''lighthouseResult'') = Some (JObj lh)
            \<and> map_of lh (lit ''audits'') = None
            \<and> analyze p (Response st (Some (JObj kvs))) = Inr (l, Some m) \<longrightarrow>
            lcp m = 0 \<and> cls m = PyInt 0 \<and> recommendations m = [])
       \<and> (map_of kvs (lit ''lighthouseResult'') = Some (JObj lh)
            \<and> map_of lh (lit ''categories'') = None
            \<and> analyze p (Response st (Some (JObj kvs))) = Inr (l, Some m) \<longrightarrow>
            score m = 0)"
proof -
  from assms have ok: "\<not> raise_for_status st"
    by (simp add: raise_for_status_def)
  have some: "read_metrics p (JObj kvs) = Inr m"
    if "analyze p (Response st (Some (JObj kvs))) = Inr (l, Some m)"
    using that unfolding analyze_Response [OF ok]
    by (auto split: sum.splits py_error.splits)
  show ?thesis
    using read_metrics_no_result [of kvs p] read_metrics_empty_result [of kvs lh p]
      read_metrics_no_audits [of kvs lh p m] read_metrics_no_categories [of kvs lh p m] some
    by (auto simp: analyze_Response [OF ok])
qed

theorem missing_fields_default_witness:
  "analyze (\<lambda>s. None) (Response 200 (Some (JObj []))) = Inr (AnalysisDone, Some no_metrics)
   \<and> analyze (\<lambda>s. None) (Response 200 (Some (JObj [(lit ''lighthouseResult'', JObj [])])))
       = Inr (AnalysisDone, Some no_metrics)
   \<and> lcp \<lparr>score = 50, lcp = 0, cls = PyInt 0, recommendations = []\<rparr> = 0"
proof -
  have b: "(200 :: nat) \<le> 200" "(200 :: nat) < 300"
    by simp_all
  have m1: "map_of [] (lit ''lighthouseResult'') = None"
    by simp
  have m2: "map_of [(lit ''lighthouseResult'', JObj [])] (lit ''lighthouseResult'') = Some (JObj [])
            \<and> map_of [] (lit ''categories'') = None \<and> map_of [] (lit ''audits'') = (None :: json option)"
    by simp
  from missing_fields_default [OF b, where kvs = "[]" and p = "\<lambda>s. None"] m1
  have "analyze (\<lambda>s. None) (Response 200 (Some (JObj []))) = Inr (AnalysisDone, Some no_metrics)"
    by blast
  moreover from missing_fields_default [OF b, where kvs = "[(lit ''lighthouseResult'', JObj [])]"
      and lh = "[]" and p = "\<lambda>s. None"] m2
  have "analyze (\<lambda>s. None) (Response 200 (Some (JObj [(lit ''lighthouseResult'', JObj [])])))
       = Inr (AnalysisDone, Some no_metrics)"
    by blast
  ultimately show ?thesis by simp
qed

section \<open>Properties of the report\<close>

lemma comparison_ahead:
  assumes "score cmp < my_score"
  shows "comparison_line my_score cmp =
           boxed (ljust 58 (lit ''    '' @ ljust 25 ([0x2705] @ lit '' '' @ label cmp) @ lit '' ''
             @ [0x2192] @ lit '' '' @ show_int (score cmp) @ lit '' puan (''
             @ show_int (my_score - score cmp) @ lit '' puan gerideler)''))"
  using assms by (simp add: comparison_line_def Let_def)



lemma length_header_lines [simp]: "length (header_lines py_str date_str my_site) = 10"
  by (simp add: header_lines_def)


subsection \<open>The comparison section\<close>


lemma replicate_numeral: "replicate (numeral k) x = x # replicate (pred_numeral k) x"
  by (simp add: numeral_eq_Suc)

lemma action_items_Nil: "action_items py_str [] = Inr [congratulation]"
  by (simp add: action_items_def)

lemma site_evals:
  "score site_ours = 90" "score site_slow = 70" "score site_fast = 95"
  "label site_slow = lit ''Rakip A''" "label site_fast = lit ''Rakip B''"
  "recommendations site_ours = []" "recommendations site_long_url = []"
  "url site_long_url = lit ''https://example.com/'' @ replicate 40 97"
  by (simp_all add: site_ours_def site_slow_def site_fast_def site_long_url_def)


subsection \<open>The width of the box\<close>

text \<open>
  Claim C2 fails on the code: \<open>ljust\<close> pads and never cuts. With a primary score of 90
  and a competitor of score 70 the comparison line has 59 columns between the
  borders, and a URL of 60 characters gives a URL line of 69.
\<close>

theorem box_line_too_wide:
  "box_lines py_str date_str site_ours [site_slow]
     = Inr (header_lines py_str date_str site_ours @ [comparison_line 90 site_slow]
            @ items_heading @ [congratulation] @ [blank_row, rule_line 0x255a 0x255d])
   \<and> comparison_line 90 site_slow
       = boxed (lit ''    '' @ [0x2705] @ lit '' Rakip A                 '' @ [0x2192]
                @ lit '' 70 puan (20 puan gerideler)'')
   \<and> length (lit ''    '' @ [0x2705] @ lit '' Rakip A                 '' @ [0x2192]
                @ lit '' 70 puan (20 puan gerideler)'') = 59
   \<and> header_lines py_str date_str site_long_url ! 5
       = boxed (lit ''    URL: https://example.com/'' @ replicate 40 97)
   \<and> length (lit ''    URL: https://example.com/'' @ replicate 40 97) = 69"
proof -
  have "comparison_line 90 site_slow
       = boxed (lit ''    '' @ [0x2705] @ lit '' Rakip A                 '' @ [0x2192]
                @ lit '' 70 puan (20 puan gerideler)'')"
    by (simp add: comparison_ahead site_evals)
       (simp add: ljust_def lit_def show_int_def replicate_numeral)
  moreover have "header_lines py_str date_str site_long_url ! 5
       = boxed (lit ''    URL: https://example.com/'' @ replicate 40 97)"
    by (simp add: header_lines_def site_evals ljust_def lit_def)
  ultimately show ?thesis
    by (simp add: box_lines_def action_items_Nil site_evals) (simp add: lit_def)
qed








subsection \<open>The action items\<close>




end
